theory Spec2Isabelle
  imports Main "HOL-Library.AList" "HOL-Library.Sublist"
begin

section \<open>JavaScript values\<close>

text \<open>
  The data of \<^verbatim>\<open>src/app.js\<close> are the values \<^verbatim>\<open>JSON.parse\<close> yields, plus
  \<^verbatim>\<open>undefined\<close>, which a property read of a missing member gives. Numbers are whole
  (amounts in pesos, HTTP statuses); the program only asks of a number whether it is
  truthy. An object is an association list: a property read takes the first entry of a
  key, a write replaces that entry or appends a new one at the end, as the insertion
  order of a JavaScript object has it.
\<close>

datatype jsval =
    JUndefined
  | JNull
  | JBool bool
  | JNum int
  | JStr string
  | JArr "jsval list"
  | JObj "(string \<times> jsval) list"

type_synonym jsobj = "(string \<times> jsval) list"

text \<open>
  A table of the backend is a JSON array of objects (\<^verbatim>\<open>menu_items\<close>, \<^verbatim>\<open>orders\<close>,
  \<^verbatim>\<open>transactions\<close>, \<^verbatim>\<open>waiters\<close>, \<^verbatim>\<open>cash_closures\<close>, \<^verbatim>\<open>config\<close>); the members of a
  record stay untyped, since this layer validates none of them.
\<close>

type_synonym collection = "jsobj list"

definition toJson :: "collection \<Rightarrow> jsval" where
  "toJson xs = JArr (map JObj xs)"

text \<open>Exceptions are values. \<open>Error\<close> is \<^verbatim>\<open>new Error(message)\<close>; the other two are
  what the platform raises (\<^verbatim>\<open>fetch\<close> rejecting, \<^verbatim>\<open>response.json()\<close> on a body that is
  not JSON, a call of a member that is not a function).\<close>

datatype error =
    Error string
  | TypeError string
  | SyntaxError string

section \<open>The platform: network, timers, identifiers\<close>

datatype request =
  Request (http_method: string) (url: string) (headers: "(string \<times> string) list") (body: "jsval option")

text \<open>
  \<^verbatim>\<open>fetch\<close> either rejects or resolves to a response with a status, a status text and a
  body that \<^verbatim>\<open>response.json()\<close> parses or rejects. The body of a request is the value
  that \<^verbatim>\<open>JSON.stringify\<close> serialises.
\<close>

datatype 'b fetch_result =
    Rejected error
  | Response (status: nat) (statusText: string) (json: "error + 'b")

text \<open>Everything the program does to the outside world, in order: a request sent, a
  timer awaited (\<^verbatim>\<open>setTimeout\<close>, in milliseconds). Console output is left out.\<close>

datatype event =
    Fetch request
  | Timer int

text \<open>
  The backend and the network are a parameter: the answer to a request may depend on
  everything that happened before it. A read answers with a collection, a write with
  any JSON value. \<open>freshId k\<close> is what the \<open>k\<close>-th call of \<^verbatim>\<open>Utils.generateId\<close> returns
  (current time and a random suffix in the source).
\<close>

record platform =
  http_get :: "event list \<Rightarrow> request \<Rightarrow> collection fetch_result"
  http_write :: "event list \<Rightarrow> request \<Rightarrow> jsval fetch_result"
  freshId :: "nat \<Rightarrow> string"

definition API_URL :: string where
  "API_URL = ''https://tribunal-strong-flags-testing.trycloudflare.com/api''"

definition APP_TIMEZONE :: string where
  "APP_TIMEZONE = ''America/Bogota''"

text \<open>\<^verbatim>\<open>response.ok\<close>: the status is in the range 200 to 299.\<close>

definition ok :: "nat \<Rightarrow> bool" where
  "ok st = (200 \<le> st \<and> st \<le> 299)"

text \<open>The decimal rendering of a status in a template literal.\<close>

definition digit :: "nat \<Rightarrow> char" where
  "digit d = char_of (48 + d)"

fun decimal :: "nat \<Rightarrow> string" where
  "decimal n = (if n < 10 then [digit n] else decimal (n div 10) @ [digit (n mod 10)])"

declare decimal.simps [simp del]

section \<open>API: the HTTP access layer\<close>

definition jsonHeaders :: "(string \<times> string) list" where
  "jsonHeaders = [(''Content-Type'', ''application/json'')]"

definition getRequest :: "string \<Rightarrow> request" where
  "getRequest table = Request ''GET'' (API_URL @ ''/'' @ table) [] None"

definition saveRequest :: "string \<Rightarrow> jsval \<Rightarrow> request" where
  "saveRequest table items = Request ''POST'' (API_URL @ ''/'' @ table) jsonHeaders (Some items)"

definition updateRequest :: "string \<Rightarrow> string \<Rightarrow> jsval \<Rightarrow> request" where
  "updateRequest table ident item =
     Request ''PUT'' (API_URL @ ''/'' @ table @ ''/'' @ ident) jsonHeaders (Some item)"

definition deleteRequest :: "string \<Rightarrow> string \<Rightarrow> request" where
  "deleteRequest table ident = Request ''DELETE'' (API_URL @ ''/'' @ table @ ''/'' @ ident) [] None"

text \<open>
  \<^verbatim>\<open>getAll\<close> (lines 32-47): one request; a status outside 2xx raises
  \<^verbatim>\<open>Error(`HTTP ${status}: ${statusText}`)\<close>; the \<^verbatim>\<open>catch\<close> logs and rethrows.
  The \<^verbatim>\<open>timeout\<close> member of the options is no option of \<^verbatim>\<open>fetch\<close> and has no effect.
\<close>

definition getAll :: "platform \<Rightarrow> string \<Rightarrow> event list \<Rightarrow> (error + collection) \<times> event list" where
  "getAll p table tr =
     ((case http_get p tr (getRequest table) of
         Rejected e \<Rightarrow> Inl e
       | Response st txt b \<Rightarrow>
           if \<not> ok st then Inl (Error (''HTTP '' @ decimal st @ '': '' @ txt)) else b),
      tr @ [Fetch (getRequest table)])"

text \<open>One attempt of a write (the \<^verbatim>\<open>try\<close> block shared by \<^verbatim>\<open>save\<close>, \<^verbatim>\<open>update\<close> and
  \<^verbatim>\<open>delete\<close>): a status outside 2xx raises \<^verbatim>\<open>Error(`HTTP ${status}`)\<close>.\<close>

definition attempt :: "platform \<Rightarrow> request \<Rightarrow> event list \<Rightarrow> error + jsval" where
  "attempt p req tr =
     (case http_write p tr req of
        Rejected e \<Rightarrow> Inl e
      | Response st txt b \<Rightarrow> if \<not> ok st then Inl (Error (''HTTP '' @ decimal st)) else b)"

text \<open>
  \<^verbatim>\<open>save\<close> (lines 49-68): \<^verbatim>\<open>for (let i = 0; i <= retries; i++)\<close>. A success returns at
  once; a failure at \<^verbatim>\<open>i === retries\<close> is rethrown; any other failure awaits a timer
  of \<^verbatim>\<open>500 * (i + 1)\<close> ms and goes round again. Leaving the loop returns \<^verbatim>\<open>undefined\<close>.
\<close>

function saveLoop ::
  "platform \<Rightarrow> string \<Rightarrow> jsval \<Rightarrow> int \<Rightarrow> int \<Rightarrow> event list \<Rightarrow> (error + jsval) \<times> event list" where
  "saveLoop p table items retries i tr =
     (if i \<le> retries then
        (case attempt p (saveRequest table items) tr of
           Inr v \<Rightarrow> (Inr v, tr @ [Fetch (saveRequest table items)])
         | Inl e \<Rightarrow>
             if i = retries then (Inl e, tr @ [Fetch (saveRequest table items)])
             else saveLoop p table items retries (i + 1)
                    (tr @ [Fetch (saveRequest table items), Timer (500 * (i + 1))]))
      else (Inr JUndefined, tr))"
  by pat_completeness auto
termination
  by (relation "measure (\<lambda>(p, table, items, retries, i, tr). nat (retries + 1 - i))") auto

declare saveLoop.simps [simp del]

definition save :: "platform \<Rightarrow> string \<Rightarrow> jsval \<Rightarrow> int \<Rightarrow> event list \<Rightarrow> (error + jsval) \<times> event list" where
  "save p table items retries tr = saveLoop p table items retries 0 tr"

text \<open>\<^verbatim>\<open>update\<close> (lines 70-83) and \<^verbatim>\<open>delete\<close> (lines 85-96): one attempt, rethrown.\<close>

definition update :: "platform \<Rightarrow> string \<Rightarrow> string \<Rightarrow> jsval \<Rightarrow> event list \<Rightarrow> (error + jsval) \<times> event list" where
  "update p table ident item tr =
     (attempt p (updateRequest table ident item) tr, tr @ [Fetch (updateRequest table ident item)])"

definition delete :: "platform \<Rightarrow> string \<Rightarrow> string \<Rightarrow> event list \<Rightarrow> (error + jsval) \<times> event list" where
  "delete p table ident tr =
     (attempt p (deleteRequest table ident) tr, tr @ [Fetch (deleteRequest table ident)])"

text \<open>What \<open>k\<close> failed attempts of \<^verbatim>\<open>save\<close> leave behind: each request followed by its
  timer, 500 ms times the number of the attempt.\<close>

definition backoff :: "request \<Rightarrow> nat \<Rightarrow> event list" where
  "backoff r k = concat (map (\<lambda>j. [Fetch r, Timer (500 * (int j + 1))]) [0..<k])"

section \<open>AppState and the initial load\<close>

record AppState =
  menuItems :: collection
  orders :: collection
  transactions :: collection
  waiters :: collection
  config :: jsobj
  cashClosures :: collection
  isOnline :: bool

definition initialAppState :: "bool \<Rightarrow> AppState" where
  "initialAppState online =
     \<lparr>menuItems = [], orders = [], transactions = [], waiters = [], config = [],
      cashClosures = [], isOnline = online\<rparr>"

text \<open>
  \<^verbatim>\<open>loadInitialData\<close> (lines 201-222). Each \<^verbatim>\<open>await API.getAll\<close> that raises leaves the
  function through the outer \<^verbatim>\<open>catch\<close>, which logs and rethrows; the assignments made
  before stay in \<^verbatim>\<open>AppState\<close>. Only the read of \<^verbatim>\<open>cash_closures\<close> has a \<^verbatim>\<open>catch\<close> of
  its own, which stores the empty array. The result is the error raised, if any, the
  state and the events.
\<close>

definition loadInitialData :: "platform \<Rightarrow> AppState \<Rightarrow> event list \<Rightarrow> error option \<times> AppState \<times> event list" where
  "loadInitialData p s tr =
     (case getAll p ''menu_items'' tr of
        (Inl e, tr1) \<Rightarrow> (Some e, s, tr1)
      | (Inr m, tr1) \<Rightarrow>
     (case getAll p ''orders'' tr1 of
        (Inl e, tr2) \<Rightarrow> (Some e, s\<lparr>menuItems := m\<rparr>, tr2)
      | (Inr os, tr2) \<Rightarrow>
     (case getAll p ''transactions'' tr2 of
        (Inl e, tr3) \<Rightarrow> (Some e, s\<lparr>menuItems := m, orders := os\<rparr>, tr3)
      | (Inr ts, tr3) \<Rightarrow>
     (case getAll p ''waiters'' tr3 of
        (Inl e, tr4) \<Rightarrow> (Some e, s\<lparr>menuItems := m, orders := os, transactions := ts\<rparr>, tr4)
      | (Inr ws, tr4) \<Rightarrow>
     (let (cs, tr5) = (case getAll p ''cash_closures'' tr4 of
                         (Inl err, tr5) \<Rightarrow> ([], tr5)
                       | (Inr cs, tr5) \<Rightarrow> (cs, tr5));
          s5 = s\<lparr>menuItems := m, orders := os, transactions := ts, waiters := ws,
                 cashClosures := cs\<rparr>
      in (case getAll p ''config'' tr5 of
            (Inl e, tr6) \<Rightarrow> (Some e, s5, tr6)
          | (Inr configArray, tr6) \<Rightarrow>
              (None, s5\<lparr>config := (if length configArray > 0 then configArray ! 0 else [])\<rparr>,
               tr6)))))))"

text \<open>\<^verbatim>\<open>loadCashClosures\<close> (lines 313-315).\<close>

definition loadCashClosures :: "platform \<Rightarrow> event list \<Rightarrow> (error + collection) \<times> event list" where
  "loadCashClosures p tr = getAll p ''cash_closures'' tr"

section \<open>Records, truthiness, strings\<close>

text \<open>A property read (\<^verbatim>\<open>item.k\<close>; \<^verbatim>\<open>undefined\<close> when the member is missing), a write
  (\<^verbatim>\<open>item.k = v\<close>) and \<^verbatim>\<open>delete item.k\<close>.\<close>

definition getField :: "jsobj \<Rightarrow> string \<Rightarrow> jsval" where
  "getField item k = (case map_of item k of None \<Rightarrow> JUndefined | Some v \<Rightarrow> v)"

definition setField :: "jsobj \<Rightarrow> string \<Rightarrow> jsval \<Rightarrow> jsobj" where
  "setField item k v = AList.update k v item"

definition deleteField :: "jsobj \<Rightarrow> string \<Rightarrow> jsobj" where
  "deleteField item k = AList.delete k item"

text \<open>What \<^verbatim>\<open>if (v)\<close> and \<^verbatim>\<open>!v\<close> test: \<^verbatim>\<open>undefined\<close>, \<^verbatim>\<open>null\<close>, \<^verbatim>\<open>false\<close>, \<^verbatim>\<open>0\<close> and
  \<^verbatim>\<open>''\<close> are falsy, every array and object is truthy.\<close>

fun truthy :: "jsval \<Rightarrow> bool" where
  "truthy JUndefined = False"
| "truthy JNull = False"
| "truthy (JBool b) = b"
| "truthy (JNum n) = (n \<noteq> 0)"
| "truthy (JStr s) = (s \<noteq> [])"
| "truthy (JArr xs) = True"
| "truthy (JObj kvs) = True"

fun isArray :: "jsval \<Rightarrow> bool" where
  "isArray (JArr xs) = True"
| "isArray v = False"

text \<open>
  Strings are byte strings (UTF-8). \<^verbatim>\<open>toLowerCase\<close> is modelled on the letters A to Z.
  Its only use is in front of \<^verbatim>\<open>.includes('trapillo')\<close>, and the answer of that search
  is the same: a character outside ASCII is a run of bytes above 127 before and after
  lowering, except the Kelvin sign (lowered to k, no letter of the needle) and the
  dotted capital I (lowered to i followed by a combining dot, so never by l).
\<close>

definition lowerChar :: "char \<Rightarrow> char" where
  "lowerChar c =
     (if 65 \<le> (of_char c :: nat) \<and> (of_char c :: nat) \<le> 90 then char_of ((of_char c :: nat) + 32) else c)"

definition toLowerCase :: "string \<Rightarrow> string" where
  "toLowerCase s = map lowerChar s"

text \<open>\<^verbatim>\<open>s.includes(t)\<close>: \<open>t\<close> occurs in \<open>s\<close> at some position.\<close>

fun includes_js :: "string \<Rightarrow> string \<Rightarrow> bool" where
  "includes_js [] t = (t = [])"
| "includes_js (c # s) t = (prefix t (c # s) \<or> includes_js s t)"

section \<open>Seeding and migration\<close>

text \<open>The three example products (lines 228-259) and the two default waiters (lines
  296-307), with the identifiers \<^verbatim>\<open>Utils.generateId()\<close> returned.\<close>

definition seedMenuItems :: "string \<Rightarrow> string \<Rightarrow> string \<Rightarrow> collection" where
  "seedMenuItems id1 id2 id3 =
     [[(''id'', JStr id1),
       (''name'', JStr (''Bolso Macram'' @ [CHR 0xC3, CHR 0xA9] @ '' Crudo'')),
       (''description'', JStr (''Bolso tejido a mano en hilo de algod'' @ [CHR 0xC3, CHR 0xB3] @
           ''n color crudo. Dise'' @ [CHR 0xC3, CHR 0xB1] @ ''o elegante y espacioso.'')),
       (''cost'', JNum 45000),
       (''price'', JNum 85000),
       (''category'', JStr (''Macram'' @ [CHR 0xC3, CHR 0xA9])),
       (''image'', JStr ''https://lh3.googleusercontent.com/aida-public/AB6AXuBk6smYy2Mm-f3m_jaZGjaNaTiCZk7WJoDuXJ2XvpQdVBqjbxeHZBapk_oryfTLJ_p3b0JBfZPYOh_vaiaa1kTS2QbuTlv8ZU53vJAftgMuP2RaKvPxvey4jmui8MtvGY2ubBrC1yvcbBoQx4uXHx47VbaLRfhQt42kq8jQTmyNkPDuGhjMYDWFIiygY9badWq5eGbfCeJUOMyqUaJTdUXDag9CIvqI35s6uGg9xciuIZccIxrN1j1YVvBC4FYScSLtAH502Y5jDmc''),
       (''available'', JBool True)],
      [(''id'', JStr id2),
       (''name'', JStr ''Cartera Zuncho Colorida''),
       (''description'', JStr (''Cartera resistente tejida en zuncho con patrones geom'' @
           [CHR 0xC3, CHR 0xA9] @ ''tricos vibrantes.'')),
       (''cost'', JNum 35000),
       (''price'', JNum 65000),
       (''category'', JStr ''Bolsos en Zuncho''),
       (''image'', JStr ''zuncho_artesanal.png''),
       (''available'', JBool True)],
      [(''id'', JStr id3),
       (''name'', JStr ''Cesta Organizadora''),
       (''description'', JStr ''Cesta tejida en trapillo ideal para organizar espacios con estilo.''),
       (''cost'', JNum 25000),
       (''price'', JNum 45000),
       (''category'', JStr ''Tejidos Crochet''),
       (''image'', JStr ''https://lh3.googleusercontent.com/aida-public/AB6AXuBBb22GOqiBV3DeTE7F8-8QgWOmKaEbZVPAUkwa1czfqVAN6wcTs7nDkuPXcNxPUhKZ5EhCdubA4EXwfnzccyYH2Vgn9cGljielLhFylJDi_m51lnyIxlWkVgpxdjGWyLjFSL1IAa0PwmRzEJDR8y5r8_BvC6QvJtH5Rz7z4ZtXgG8qK_l8J3bJ4Z5yL9XwQ9zH3jK5nM2P4rT8qVw6xY7uZ9aO1bC3dE5fG7hI9jL0mK2nO4pQ6sR8tU9vW1xY3zA5bC7d9eF1gH3jI5kL7mN9oP2rS''),
       (''available'', JBool True)]]"

definition seedWaiters :: "string \<Rightarrow> string \<Rightarrow> collection" where
  "seedWaiters id1 id2 =
     [[(''id'', JStr id1),
       (''name'', JStr (''Juan P'' @ [CHR 0xC3, CHR 0xA9] @ ''rez'')),
       (''active'', JBool True)],
      [(''id'', JStr id2),
       (''name'', JStr (''Mar'' @ [CHR 0xC3, CHR 0xAD] @ ''a Garc'' @ [CHR 0xC3, CHR 0xAD] @ ''a'')),
       (''active'', JBool True)]]"

text \<open>
  The callback of \<^verbatim>\<open>forEach\<close> (lines 264-289), one definition for each \<^verbatim>\<open>if\<close>. A step
  takes the record and the flag \<^verbatim>\<open>needsUpdate\<close> and returns both. The records are
  mutated in place, so what a step has written stays written when a later step raises.
\<close>

definition addCost :: "jsobj \<times> bool \<Rightarrow> jsobj \<times> bool" where
  "addCost = (\<lambda>(item, needsUpdate).
     if getField item ''cost'' = JUndefined then (setField item ''cost'' (JNum 0), True)
     else (item, needsUpdate))"

definition imgToImages :: "jsobj \<times> bool \<Rightarrow> jsobj \<times> bool" where
  "imgToImages = (\<lambda>(item, needsUpdate).
     if truthy (getField item ''img'') \<and> \<not> truthy (getField item ''images'') then
       (deleteField (setField item ''images'' (JArr [getField item ''img''])) ''img'', True)
     else (item, needsUpdate))"

definition ensureImages :: "jsobj \<times> bool \<Rightarrow> jsobj \<times> bool" where
  "ensureImages = (\<lambda>(item, needsUpdate).
     if \<not> truthy (getField item ''images'') \<or> \<not> isArray (getField item ''images'') then
       (setField item ''images'' (JArr []), True)
     else (item, needsUpdate))"

definition renameCuero :: "jsobj \<times> bool \<Rightarrow> jsobj \<times> bool" where
  "renameCuero = (\<lambda>(item, needsUpdate).
     if getField item ''category'' = JStr ''Cuero Artesanal'' then
       (setField item ''category'' (JStr ''Cuero''), True)
     else (item, needsUpdate))"

text \<open>\<^verbatim>\<open>item.category && item.category.toLowerCase().includes('trapillo')\<close>: a truthy
  category that is no string has no \<^verbatim>\<open>toLowerCase\<close>, and the call raises a TypeError.\<close>

definition renameTrapillo :: "jsobj \<times> bool \<Rightarrow> error option \<times> jsobj \<times> bool" where
  "renameTrapillo = (\<lambda>(item, needsUpdate).
     if truthy (getField item ''category'') then
       (case getField item ''category'' of
          JStr c \<Rightarrow>
            if includes_js (toLowerCase c) ''trapillo'' then
              (None, setField item ''category'' (JStr ''Tejidos Crochet''), True)
            else (None, item, needsUpdate)
        | _ \<Rightarrow> (Some (TypeError ''item.category.toLowerCase is not a function''), item, needsUpdate))
     else (None, item, needsUpdate))"

definition migrateItem :: "jsobj \<Rightarrow> bool \<Rightarrow> error option \<times> jsobj \<times> bool" where
  "migrateItem item needsUpdate =
     renameTrapillo (renameCuero (ensureImages (imgToImages (addCost (item, needsUpdate)))))"

text \<open>\<^verbatim>\<open>AppState.menuItems.forEach(item => ...)\<close>: the records in order; an exception ends
  the loop, and the records after it are not visited.\<close>

fun forEachMigrate :: "collection \<Rightarrow> bool \<Rightarrow> error option \<times> collection \<times> bool" where
  "forEachMigrate [] needsUpdate = (None, [], needsUpdate)"
| "forEachMigrate (item # rest) needsUpdate =
     (case migrateItem item needsUpdate of
        (Some e, item', n) \<Rightarrow> (Some e, item' # rest, n)
      | (None, item', n) \<Rightarrow>
          (case forEachMigrate rest n of (r, rest', n') \<Rightarrow> (r, item' # rest', n')))"

text \<open>
  \<^verbatim>\<open>initializeDefaultData\<close>, first half (lines 226-293): an empty menu is seeded and
  saved; otherwise the records are migrated and saved when the flag is set. \<open>n\<close> counts
  the identifiers generated so far. \<^verbatim>\<open>AppState.menuItems\<close> is assigned before the save,
  so a save that raises leaves the new records in the state.
\<close>

definition initMenuItems ::
  "platform \<Rightarrow> AppState \<Rightarrow> event list \<Rightarrow> nat \<Rightarrow> error option \<times> AppState \<times> event list \<times> nat" where
  "initMenuItems p s tr n =
     (if length (menuItems s) = 0 then
        (let s1 = s\<lparr>menuItems := seedMenuItems (freshId p n) (freshId p (n + 1)) (freshId p (n + 2))\<rparr>
         in (case save p ''menu_items'' (toJson (menuItems s1)) 2 tr of
               (Inl e, tr1) \<Rightarrow> (Some e, s1, tr1, n + 3)
             | (Inr v, tr1) \<Rightarrow> (None, s1, tr1, n + 3)))
      else
        (case forEachMigrate (menuItems s) False of
           (Some e, items, needsUpdate) \<Rightarrow> (Some e, s\<lparr>menuItems := items\<rparr>, tr, n)
         | (None, items, needsUpdate) \<Rightarrow>
             if needsUpdate then
               (case save p ''menu_items'' (toJson items) 2 tr of
                  (Inl e, tr1) \<Rightarrow> (Some e, s\<lparr>menuItems := items\<rparr>, tr1, n)
                | (Inr v, tr1) \<Rightarrow> (None, s\<lparr>menuItems := items\<rparr>, tr1, n))
             else (None, s\<lparr>menuItems := items\<rparr>, tr, n)))"

text \<open>Second half (lines 295-309): an empty list of waiters is seeded and saved.\<close>

definition initWaiters ::
  "platform \<Rightarrow> AppState \<Rightarrow> event list \<Rightarrow> nat \<Rightarrow> error option \<times> AppState \<times> event list \<times> nat" where
  "initWaiters p s tr n =
     (if length (waiters s) = 0 then
        (let s1 = s\<lparr>waiters := seedWaiters (freshId p n) (freshId p (n + 1))\<rparr>
         in (case save p ''waiters'' (toJson (waiters s1)) 2 tr of
               (Inl e, tr1) \<Rightarrow> (Some e, s1, tr1, n + 2)
             | (Inr v, tr1) \<Rightarrow> (None, s1, tr1, n + 2)))
      else (None, s, tr, n))"

definition initializeDefaultData ::
  "platform \<Rightarrow> AppState \<Rightarrow> event list \<Rightarrow> nat \<Rightarrow> error option \<times> AppState \<times> event list \<times> nat" where
  "initializeDefaultData p s tr n =
     (case initMenuItems p s tr n of
        (Some e, s1, tr1, n1) \<Rightarrow> (Some e, s1, tr1, n1)
      | (None, s1, tr1, n1) \<Rightarrow> initWaiters p s1 tr1 n1)"

section \<open>Date keys\<close>

text \<open>
  The host: its clock (\<^verbatim>\<open>new Date()\<close>, in milliseconds since the epoch) and its local
  time zone. \<^verbatim>\<open>Intl.DateTimeFormat\<close> is the platform's: \<open>render locale opts zone t\<close> is
  the text of the instant \<open>t\<close> in the zone \<open>zone\<close>, or the RangeError for a zone the
  platform does not know. By ECMA-402 the zone of a formatter is the \<^verbatim>\<open>timeZone\<close> option
  when the options have one, and the zone of the host otherwise.
\<close>

record env =
  now :: int
  localZone :: string

type_synonym intl = "string \<Rightarrow> (string \<times> string) list \<Rightarrow> string \<Rightarrow> int \<Rightarrow> error + string"

definition dateTimeFormat ::
  "intl \<Rightarrow> env \<Rightarrow> string \<Rightarrow> string option \<Rightarrow> (string \<times> string) list \<Rightarrow> int \<Rightarrow> error + string" where
  "dateTimeFormat render e locale timeZone opts t =
     render locale opts (case timeZone of None \<Rightarrow> localZone e | Some z \<Rightarrow> z) t"

text \<open>\<^verbatim>\<open>formatDate\<close> (lines 114-122) passes no \<^verbatim>\<open>timeZone\<close>.\<close>

definition formatDate :: "intl \<Rightarrow> env \<Rightarrow> int \<Rightarrow> error + string" where
  "formatDate render e date =
     dateTimeFormat render e ''es-MX'' None
       [(''year'', ''numeric''), (''month'', ''2-digit''), (''day'', ''2-digit''),
        (''hour'', ''2-digit''), (''minute'', ''2-digit'')] date"

text \<open>\<^verbatim>\<open>getDateKey(date = new Date(), timeZone = APP_TIMEZONE)\<close> (lines 124-131): an
  argument left out (\<open>None\<close>) takes its default.\<close>

definition getDateKey :: "intl \<Rightarrow> env \<Rightarrow> int option \<Rightarrow> string option \<Rightarrow> error + string" where
  "getDateKey render e date timeZone =
     dateTimeFormat render e ''en-CA''
       (Some (case timeZone of None \<Rightarrow> APP_TIMEZONE | Some z \<Rightarrow> z))
       [(''year'', ''numeric''), (''month'', ''2-digit''), (''day'', ''2-digit'')]
       (case date of None \<Rightarrow> now e | Some t \<Rightarrow> t)"

section \<open>Sample platforms\<close>

text \<open>A backend that is down: reads are rejected by the network, writes answer 503.\<close>

definition downPlatform :: platform where
  "downPlatform =
     \<lparr>http_get = (\<lambda>h r. Rejected (TypeError ''Failed to fetch'')),
      http_write = (\<lambda>h r. Response 503 ''Service Unavailable''
                              (Inl (SyntaxError ''Unexpected end of JSON input''))),
      freshId = (\<lambda>k. ''id'' @ decimal k)\<rparr>"

text \<open>A backend whose first answer to a write is lost.\<close>

definition flakyPlatform :: platform where
  "flakyPlatform =
     \<lparr>http_get = (\<lambda>h r. Response 200 ''OK'' (Inr [])),
      http_write = (\<lambda>h r. if length h < 2 then Rejected (TypeError ''Failed to fetch'')
                            else Response 201 ''Created'' (Inr (JObj [(''success'', JBool True)]))),
      freshId = (\<lambda>k. ''id'' @ decimal k)\<rparr>"

text \<open>A fresh backend: every table is empty, but for one configuration record, and
  the table \<^verbatim>\<open>cash_closures\<close> does not exist yet. Writes are accepted.\<close>

definition freshPlatform :: platform where
  "freshPlatform =
     \<lparr>http_get = (\<lambda>h r.
        if url r = API_URL @ ''/cash_closures'' then
          Response 404 ''Not Found'' (Inl (SyntaxError ''Unexpected token < in JSON''))
        else if url r = API_URL @ ''/config'' then
          Response 200 ''OK'' (Inr [[(''businessName'', JStr ''Lazos de Amor'')]])
        else Response 200 ''OK'' (Inr [])),
      http_write = (\<lambda>h r. Response 200 ''OK'' (Inr (JObj [(''success'', JBool True)]))),
      freshId = (\<lambda>k. ''id'' @ decimal k)\<rparr>"

text \<open>A platform clock: the zone \<^verbatim>\<open>UTC\<close> and a zone five hours behind it; the text is
  the number of the day since the epoch.\<close>

definition dayNumber :: intl where
  "dayNumber locale opts zone t =
     (if zone = ''UTC'' then Inr (decimal (nat (t div 86400000)))
      else if zone = ''America/Bogota'' then Inr (decimal (nat ((t - 18000000) div 86400000)))
      else Inl (Error (''Invalid time zone specified: '' @ zone)))"

section \<open>Vocabulary of the migration properties\<close>

text \<open>The category of a record lets the callback finish: it is a string or falsy.\<close>

definition categoryOk :: "jsobj \<Rightarrow> bool" where
  "categoryOk item = (case getField item ''category'' of JStr c \<Rightarrow> True | v \<Rightarrow> \<not> truthy v)"

text \<open>A record in its current shape: none of the five tests of the callback fires.\<close>

definition upToDate :: "jsobj \<Rightarrow> bool" where
  "upToDate item =
     (getField item ''cost'' \<noteq> JUndefined \<and>
      isArray (getField item ''images'') \<and>
      getField item ''category'' \<noteq> JStr ''Cuero Artesanal'' \<and>
      (case getField item ''category'' of
         JStr c \<Rightarrow> \<not> includes_js (toLowerCase c) ''trapillo''
       | v \<Rightarrow> \<not> truthy v))"

text \<open>The record as the callback leaves it, and whether the callback sets the flag.\<close>

definition migrated :: "jsobj \<Rightarrow> jsobj" where
  "migrated item = fst (snd (migrateItem item False))"

definition changed :: "jsobj \<Rightarrow> bool" where
  "changed item = snd (snd (migrateItem item False))"

text \<open>The loop gets to record \<open>i\<close>: no record before it raises.\<close>

definition reached :: "collection \<Rightarrow> nat \<Rightarrow> bool" where
  "reached items i = (i < length items \<and> list_all categoryOk (take i items))"

section \<open>Sample states\<close>

text \<open>A shop that was set up before the current shape of the records: the first
  product has a legacy category and a single \<^verbatim>\<open>img\<close>, the second a category with
  \<^verbatim>\<open>trapillo\<close> in capitals and an \<^verbatim>\<open>images\<close> that is no array, the third is current.\<close>

definition legacyMenu :: collection where
  "legacyMenu =
     [[(''id'', JStr ''m1''), (''name'', JStr ''Monedero''), (''price'', JNum 30000),
       (''category'', JStr ''Cuero Artesanal''), (''img'', JStr ''monedero.png'')],
      [(''id'', JStr ''m2''), (''name'', JStr ''Cesta''), (''cost'', JNum 12000),
       (''price'', JNum 25000), (''category'', JStr ''Cestas de TRAPILLO''),
       (''images'', JStr ''cesta.png'')],
      [(''id'', JStr ''m3''), (''name'', JStr ''Bolso''), (''cost'', JNum 45000),
       (''price'', JNum 85000), (''category'', JStr ''Macrame''),
       (''images'', JArr [JStr ''bolso.png''])]]"

definition legacyState :: AppState where
  "legacyState =
     (initialAppState True)
       \<lparr>menuItems := legacyMenu,
        waiters := [[(''id'', JStr ''w1''), (''name'', JStr ''Ana''), (''active'', JBool True)]]\<rparr>"

text \<open>The call that follows a call in succession: it starts from the state, the events
  and the identifier count the first one left.\<close>

definition nextCall ::
  "platform \<Rightarrow> error option \<times> AppState \<times> event list \<times> nat \<Rightarrow>
   error option \<times> AppState \<times> event list \<times> nat" where
  "nextCall p out = (case out of (r, s, tr, n) \<Rightarrow> initializeDefaultData p s tr n)"

text \<open>The first start of the application against the fresh backend, and the first
  call on the legacy shop.\<close>

definition firstStart :: "error option \<times> AppState \<times> event list \<times> nat" where
  "firstStart = initializeDefaultData freshPlatform (initialAppState True) [] 0"

definition legacyStart :: "error option \<times> AppState \<times> event list \<times> nat" where
  "legacyStart = initializeDefaultData freshPlatform legacyState [] 0"

text \<open>The parts of an outcome of \<^verbatim>\<open>initializeDefaultData\<close>.\<close>

definition stateOf :: "error option \<times> AppState \<times> event list \<times> nat \<Rightarrow> AppState" where
  "stateOf out = fst (snd out)"

definition eventsOf :: "error option \<times> AppState \<times> event list \<times> nat \<Rightarrow> event list" where
  "eventsOf out = fst (snd (snd out))"

section \<open>The access layer: retries and single shots\<close>

lemma backoff_0: "backoff r 0 = []"
  by (simp add: backoff_def)

lemma backoff_Suc: "backoff r (Suc k) = backoff r k @ [Fetch r, Timer (500 * (int k + 1))]"
  by (simp add: backoff_def)

lemma saveLoop_success:
  "i \<le> retries \<Longrightarrow> attempt p (saveRequest table items) tr = Inr v \<Longrightarrow>
   saveLoop p table items retries i tr = (Inr v, tr @ [Fetch (saveRequest table items)])"
  by (subst saveLoop.simps) simp

lemma saveLoop_last_failure:
  "attempt p (saveRequest table items) tr = Inl e \<Longrightarrow>
   saveLoop p table items retries retries tr = (Inl e, tr @ [Fetch (saveRequest table items)])"
  by (subst saveLoop.simps) simp

lemma saveLoop_retry:
  "i < retries \<Longrightarrow> attempt p (saveRequest table items) tr = Inl e \<Longrightarrow>
   saveLoop p table items retries i tr =
   saveLoop p table items retries (i + 1) (tr @ [Fetch (saveRequest table items), Timer (500 * (i + 1))])"
  by (subst saveLoop.simps) simp

lemma saveLoop_after_failures:
  "int k \<le> retries \<Longrightarrow>
   \<forall>j<k. isl (attempt p (saveRequest table items) (tr @ backoff (saveRequest table items) j)) \<Longrightarrow>
   saveLoop p table items retries 0 tr =
   saveLoop p table items retries (int k) (tr @ backoff (saveRequest table items) k)"
proof (induction k)
  case 0
  then show ?case by (simp add: backoff_0)
next
  case (Suc k)
  from Suc.prems have "isl (attempt p (saveRequest table items) (tr @ backoff (saveRequest table items) k))"
    by simp
  then obtain e where e: "attempt p (saveRequest table items) (tr @ backoff (saveRequest table items) k) = Inl e"
    by (auto simp: isl_def)
  have "saveLoop p table items retries 0 tr =
        saveLoop p table items retries (int k) (tr @ backoff (saveRequest table items) k)"
    using Suc by simp
  also have "\<dots> = saveLoop p table items retries (int k + 1)
       ((tr @ backoff (saveRequest table items) k) @ [Fetch (saveRequest table items), Timer (500 * (int k + 1))])"
    using Suc.prems(1) e by (intro saveLoop_retry) auto
  finally show ?case by (simp add: backoff_Suc add.commute)
qed

text \<open>
  C10. A call of \<^verbatim>\<open>save\<close> with a negative \<^verbatim>\<open>retries\<close> never enters the loop: it sends no
  request, raises nothing and returns \<^verbatim>\<open>undefined\<close>.
\<close>

theorem save_negative_retries:
  "retries < 0 \<Longrightarrow> save p table items retries tr = (Inr JUndefined, tr)"
  by (simp add: save_def saveLoop.simps)

theorem save_negative_retries_witness:
  "(-1::int) < 0 \<and> save flakyPlatform ''waiters'' (JArr []) (-1) [] = (Inr JUndefined, [])"
  using save_negative_retries [of "-1" flakyPlatform "''waiters''" "JArr []" "[]"] by simp

text \<open>
  C2. \<^verbatim>\<open>save\<close> with \<^verbatim>\<open>retries = 2\<close>. Against an endpoint on which every attempt fails,
  the call sends exactly three requests, awaits a timer of 500 ms after the first
  failure and of 1000 ms after the second, and raises the error of the third attempt,
  after it. When the attempts before the \<open>k\<close>-th one fail and that one succeeds, the call
  returns the body of that answer and sends nothing more.
\<close>

theorem save_retry_policy:
  "((\<forall>h. isl (attempt p (saveRequest table items) h)) \<longrightarrow>
      (\<exists>e. attempt p (saveRequest table items)
              (tr @ [Fetch (saveRequest table items), Timer 500,
                     Fetch (saveRequest table items), Timer 1000]) = Inl e \<and>
            save p table items 2 tr =
              (Inl e, tr @ [Fetch (saveRequest table items), Timer 500,
                            Fetch (saveRequest table items), Timer 1000,
                            Fetch (saveRequest table items)])))
   \<and> (k \<le> 2 \<and> (\<forall>j<k. isl (attempt q (saveRequest t xs) (h @ backoff (saveRequest t xs) j))) \<and>
        attempt q (saveRequest t xs) (h @ backoff (saveRequest t xs) k) = Inr v \<longrightarrow>
        save q t xs 2 h = (Inr v, h @ backoff (saveRequest t xs) k @ [Fetch (saveRequest t xs)]))"
proof (intro conjI impI)
  let ?r = "saveRequest table items"
  assume fail: "\<forall>h. isl (attempt p ?r h)"
  have two: "backoff ?r 2 = [Fetch ?r, Timer 500, Fetch ?r, Timer 1000]"
    by (simp add: backoff_def numeral_2_eq_2)
  from fail obtain e where e: "attempt p ?r (tr @ backoff ?r 2) = Inl e"
    by (auto simp: isl_def)
  have "saveLoop p table items 2 0 tr = saveLoop p table items 2 (int 2) (tr @ backoff ?r 2)"
    using fail by (intro saveLoop_after_failures) auto
  also have "\<dots> = (Inl e, (tr @ backoff ?r 2) @ [Fetch ?r])"
    using e by (simp add: saveLoop_last_failure)
  finally show "\<exists>e. attempt p ?r (tr @ [Fetch ?r, Timer 500, Fetch ?r, Timer 1000]) = Inl e \<and>
      save p table items 2 tr = (Inl e, tr @ [Fetch ?r, Timer 500, Fetch ?r, Timer 1000, Fetch ?r])"
    using e by (auto simp: save_def two)
next
  let ?r = "saveRequest t xs"
  assume a: "k \<le> 2 \<and> (\<forall>j<k. isl (attempt q ?r (h @ backoff ?r j))) \<and>
        attempt q ?r (h @ backoff ?r k) = Inr v"
  then have "saveLoop q t xs 2 0 h = saveLoop q t xs 2 (int k) (h @ backoff ?r k)"
    by (intro saveLoop_after_failures) auto
  also have "\<dots> = (Inr v, (h @ backoff ?r k) @ [Fetch ?r])"
    using a by (intro saveLoop_success) auto
  finally show "save q t xs 2 h = (Inr v, h @ backoff ?r k @ [Fetch ?r])"
    by (simp add: save_def)
qed

theorem save_retry_policy_witness:
  "(\<forall>h. isl (attempt downPlatform (saveRequest ''waiters'' (JArr [])) h)) \<and>
   save downPlatform ''waiters'' (JArr []) 2 [] =
     (Inl (Error ''HTTP 503''),
      [Fetch (saveRequest ''waiters'' (JArr [])), Timer 500,
       Fetch (saveRequest ''waiters'' (JArr [])), Timer 1000,
       Fetch (saveRequest ''waiters'' (JArr []))]) \<and>
   (1::nat) \<le> 2 \<and>
   isl (attempt flakyPlatform (saveRequest ''waiters'' (JArr [])) []) \<and>
   save flakyPlatform ''waiters'' (JArr []) 2 [] =
     (Inr (JObj [(''success'', JBool True)]),
      [Fetch (saveRequest ''waiters'' (JArr [])), Timer 500,
       Fetch (saveRequest ''waiters'' (JArr []))])"
proof -
  have d503: "decimal 503 = ''503''"
    by code_simp
  have down: "\<And>h. attempt downPlatform (saveRequest ''waiters'' (JArr [])) h = Inl (Error ''HTTP 503'')"
    by (simp add: attempt_def downPlatform_def ok_def d503)
  have b1: "backoff (saveRequest ''waiters'' (JArr [])) (Suc 0) = [Fetch (saveRequest ''waiters'' (JArr [])), Timer 500]"
    by (simp add: backoff_def)
  have f0: "attempt flakyPlatform (saveRequest ''waiters'' (JArr [])) [] = Inl (TypeError ''Failed to fetch'')"
    by (simp add: attempt_def flakyPlatform_def)
  have f1: "attempt flakyPlatform (saveRequest ''waiters'' (JArr []))
              [Fetch (saveRequest ''waiters'' (JArr [])), Timer 500] = Inr (JObj [(''success'', JBool True)])"
    by (simp add: attempt_def flakyPlatform_def ok_def)
  show ?thesis
    using save_retry_policy [of downPlatform "''waiters''" "JArr []" "[]" 1 flakyPlatform "''waiters''" "JArr []" "[]"
        "JObj [(''success'', JBool True)]"]
    by (simp add: down f0 f1 b1 backoff_0)
qed

text \<open>
  C3. On an answer with a status outside 2xx, \<^verbatim>\<open>getAll\<close>, \<^verbatim>\<open>update\<close> and \<^verbatim>\<open>delete\<close> each
  send exactly one request and raise their error, with no retry. (The source raises a
  plain \<^verbatim>\<open>Error\<close> with the status in its message; the kinds FetchError, UpdateError
  and DeleteError of the specification are these errors, told apart by the operation.)
\<close>

theorem single_shot_errors:
  "(http_get p tr (getRequest table) = Response st reason b \<and> \<not> ok st \<longrightarrow>
      getAll p table tr =
        (Inl (Error (''HTTP '' @ decimal st @ '': '' @ reason)), tr @ [Fetch (getRequest table)]))
   \<and> (http_write p tr (updateRequest table ident item) = Response st reason c \<and> \<not> ok st \<longrightarrow>
      update p table ident item tr =
        (Inl (Error (''HTTP '' @ decimal st)), tr @ [Fetch (updateRequest table ident item)]))
   \<and> (http_write p tr (deleteRequest table ident) = Response st reason c \<and> \<not> ok st \<longrightarrow>
      delete p table ident tr =
        (Inl (Error (''HTTP '' @ decimal st)), tr @ [Fetch (deleteRequest table ident)]))"
  by (simp add: getAll_def update_def delete_def attempt_def)

theorem single_shot_errors_witness:
  "http_get freshPlatform [] (getRequest ''cash_closures'') =
     Response 404 ''Not Found'' (Inl (SyntaxError ''Unexpected token < in JSON'')) \<and>
   \<not> ok 404 \<and>
   getAll freshPlatform ''cash_closures'' [] =
     (Inl (Error ''HTTP 404: Not Found''), [Fetch (getRequest ''cash_closures'')]) \<and>
   http_write downPlatform [] (updateRequest ''waiters'' ''w1'' (JObj [(''active'', JBool False)])) =
     Response 503 ''Service Unavailable'' (Inl (SyntaxError ''Unexpected end of JSON input'')) \<and>
   \<not> ok 503 \<and>
   update downPlatform ''waiters'' ''w1'' (JObj [(''active'', JBool False)]) [] =
     (Inl (Error ''HTTP 503''), [Fetch (updateRequest ''waiters'' ''w1'' (JObj [(''active'', JBool False)]))]) \<and>
   http_write downPlatform [] (deleteRequest ''waiters'' ''w1'') =
     Response 503 ''Service Unavailable'' (Inl (SyntaxError ''Unexpected end of JSON input'')) \<and>
   delete downPlatform ''waiters'' ''w1'' [] =
     (Inl (Error ''HTTP 503''), [Fetch (deleteRequest ''waiters'' ''w1'')])"
proof -
  have d404: "decimal 404 = ''404''" and d503: "decimal 503 = ''503''"
    by code_simp+
  have get: "http_get freshPlatform [] (getRequest ''cash_closures'') =
     Response 404 ''Not Found'' (Inl (SyntaxError ''Unexpected token < in JSON''))"
    by (simp add: freshPlatform_def getRequest_def)
  have wr: "http_write downPlatform [] r =
     Response 503 ''Service Unavailable'' (Inl (SyntaxError ''Unexpected end of JSON input''))" for r
    by (simp add: downPlatform_def)
  have n404: "\<not> ok 404" and n503: "\<not> ok 503"
    by (simp_all add: ok_def)
  have "getAll freshPlatform ''cash_closures'' [] =
     (Inl (Error (''HTTP '' @ decimal 404 @ '': '' @ ''Not Found'')), [] @ [Fetch (getRequest ''cash_closures'')])"
    using single_shot_errors [where p = freshPlatform and tr = "[]" and table = "''cash_closures''"
        and st = 404 and reason = "''Not Found''"] get n404
    by blast
  moreover have "update downPlatform ''waiters'' ''w1'' (JObj [(''active'', JBool False)]) [] =
     (Inl (Error (''HTTP '' @ decimal 503)),
      [] @ [Fetch (updateRequest ''waiters'' ''w1'' (JObj [(''active'', JBool False)]))])"
    using single_shot_errors [where p = downPlatform and tr = "[]" and table = "''waiters''"
        and st = 503 and ident = "''w1''" and item = "JObj [(''active'', JBool False)]"] wr n503
    by blast
  moreover have "delete downPlatform ''waiters'' ''w1'' [] =
     (Inl (Error (''HTTP '' @ decimal 503)), [] @ [Fetch (deleteRequest ''waiters'' ''w1'')])"
    using single_shot_errors [where p = downPlatform and tr = "[]" and table = "''waiters''"
        and st = 503 and ident = "''w1''"] wr n503
    by blast
  ultimately show ?thesis
    using get wr n404 n503 by (simp add: d404 d503)
qed

section \<open>The initial load\<close>

lemma getAll_pair: "getAll p table h = (fst (getAll p table h), h @ [Fetch (getRequest table)])"
  by (simp add: getAll_def)

lemma getAll_serves:
  "\<forall>h. fst (getAll p table h) = Inr xs \<Longrightarrow> getAll p table h = (Inr xs, h @ [Fetch (getRequest table)])"
  using getAll_pair [of p table h] by simp

lemma getAll_cases:
  obtains e where "getAll p table h = (Inl e, h @ [Fetch (getRequest table)])"
  | xs where "getAll p table h = (Inr xs, h @ [Fetch (getRequest table)])"
  using getAll_pair [of p table h] by (cases "fst (getAll p table h)") auto

lemma loadInitialData_served:
  assumes m: "\<forall>h. fst (getAll p ''menu_items'' h) = Inr m"
    and os: "\<forall>h. fst (getAll p ''orders'' h) = Inr os"
    and ts: "\<forall>h. fst (getAll p ''transactions'' h) = Inr ts"
    and ws: "\<forall>h. fst (getAll p ''waiters'' h) = Inr ws"
    and c: "\<forall>h. fst (getAll p ''config'' h) = Inr c"
  shows "loadInitialData p s tr =
     (None,
      s\<lparr>menuItems := m, orders := os, transactions := ts, waiters := ws,
        cashClosures := (case fst (getAll p ''cash_closures''
                            (tr @ map (\<lambda>t. Fetch (getRequest t))
                               [''menu_items'', ''orders'', ''transactions'', ''waiters''])) of
                           Inl e \<Rightarrow> [] | Inr cs \<Rightarrow> cs),
        config := (if length c > 0 then c ! 0 else [])\<rparr>,
      tr @ map (\<lambda>t. Fetch (getRequest t))
             [''menu_items'', ''orders'', ''transactions'', ''waiters'', ''cash_closures'', ''config''])"
proof -
  let ?tr4 = "tr @ map (\<lambda>t. Fetch (getRequest t)) [''menu_items'', ''orders'', ''transactions'', ''waiters'']"
  show ?thesis
  proof (cases rule: getAll_cases [of p "''cash_closures''" ?tr4])
    case (1 e)
    then show ?thesis
      using getAll_serves [OF m] getAll_serves [OF os] getAll_serves [OF ts]
        getAll_serves [OF ws] getAll_serves [OF c]
      by (simp add: loadInitialData_def)
  next
    case (2 xs)
    then show ?thesis
      using getAll_serves [OF m] getAll_serves [OF os] getAll_serves [OF ts]
        getAll_serves [OF ws] getAll_serves [OF c]
      by (simp add: loadInitialData_def)
  qed
qed

lemma fresh_serves:
  "table \<in> {''menu_items'', ''orders'', ''transactions'', ''waiters''} \<Longrightarrow>
   fst (getAll freshPlatform table h) = Inr []"
  by (auto simp: getAll_def freshPlatform_def getRequest_def API_URL_def ok_def)

lemma fresh_config:
  "fst (getAll freshPlatform ''config'' h) = Inr [[(''businessName'', JStr ''Lazos de Amor'')]]"
  by (simp add: getAll_def freshPlatform_def getRequest_def API_URL_def ok_def)

lemma fresh_cash: "isl (fst (getAll freshPlatform ''cash_closures'' h))"
  by (simp add: getAll_def freshPlatform_def getRequest_def API_URL_def ok_def)

lemma down_menu: "fst (getAll downPlatform ''menu_items'' []) = Inl (TypeError ''Failed to fetch'')"
  by (simp add: getAll_def downPlatform_def)

text \<open>
  C4. When the read of \<^verbatim>\<open>cash_closures\<close> fails and the other tables are served,
  \<^verbatim>\<open>loadInitialData\<close> completes and leaves \<^verbatim>\<open>AppState.cashClosures\<close> empty. When the read
  of \<^verbatim>\<open>menu_items\<close> fails, its error reaches the caller, the state is untouched and no
  other table is requested.
\<close>

theorem loadInitialData_cash_closures_optional:
  "((\<forall>h. fst (getAll p ''menu_items'' h) = Inr m) \<and>
    (\<forall>h. fst (getAll p ''orders'' h) = Inr os) \<and>
    (\<forall>h. fst (getAll p ''transactions'' h) = Inr ts) \<and>
    (\<forall>h. fst (getAll p ''waiters'' h) = Inr ws) \<and>
    (\<forall>h. fst (getAll p ''config'' h) = Inr c) \<and>
    (\<forall>h. isl (fst (getAll p ''cash_closures'' h))) \<longrightarrow>
    (\<exists>s' tr'. loadInitialData p s tr = (None, s', tr') \<and> cashClosures s' = [] \<and>
       menuItems s' = m \<and> orders s' = os \<and> transactions s' = ts \<and> waiters s' = ws))
   \<and> (fst (getAll q ''menu_items'' h0) = Inl e \<longrightarrow>
        loadInitialData q s0 h0 = (Some e, s0, h0 @ [Fetch (getRequest ''menu_items'')]))"
proof (intro conjI impI)
  assume a: "(\<forall>h. fst (getAll p ''menu_items'' h) = Inr m) \<and>
    (\<forall>h. fst (getAll p ''orders'' h) = Inr os) \<and>
    (\<forall>h. fst (getAll p ''transactions'' h) = Inr ts) \<and>
    (\<forall>h. fst (getAll p ''waiters'' h) = Inr ws) \<and>
    (\<forall>h. fst (getAll p ''config'' h) = Inr c) \<and>
    (\<forall>h. isl (fst (getAll p ''cash_closures'' h)))"
  have down: "(case fst (getAll p ''cash_closures'' h) of Inl e \<Rightarrow> [] | Inr cs \<Rightarrow> cs) = []" for h
  proof -
    from a have "isl (fst (getAll p ''cash_closures'' h))"
      by blast
    then show ?thesis
      by (cases "fst (getAll p ''cash_closures'' h)") simp_all
  qed
  from a have "loadInitialData p s tr =
     (None,
      s\<lparr>menuItems := m, orders := os, transactions := ts, waiters := ws,
        cashClosures := [], config := (if length c > 0 then c ! 0 else [])\<rparr>,
      tr @ map (\<lambda>t. Fetch (getRequest t))
             [''menu_items'', ''orders'', ''transactions'', ''waiters'', ''cash_closures'', ''config''])"
    by (subst loadInitialData_served [of p m os ts ws c]) (simp_all only: down, simp_all)
  then show "\<exists>s' tr'. loadInitialData p s tr = (None, s', tr') \<and> cashClosures s' = [] \<and>
       menuItems s' = m \<and> orders s' = os \<and> transactions s' = ts \<and> waiters s' = ws"
    by simp
next
  assume "fst (getAll q ''menu_items'' h0) = Inl e"
  then have "getAll q ''menu_items'' h0 = (Inl e, h0 @ [Fetch (getRequest ''menu_items'')])"
    using getAll_pair [of q "''menu_items''" h0] by simp
  then show "loadInitialData q s0 h0 = (Some e, s0, h0 @ [Fetch (getRequest ''menu_items'')])"
    by (simp add: loadInitialData_def)
qed

theorem loadInitialData_cash_closures_optional_witness:
  "(\<forall>h. fst (getAll freshPlatform ''menu_items'' h) = Inr []) \<and>
   (\<forall>h. fst (getAll freshPlatform ''orders'' h) = Inr []) \<and>
   (\<forall>h. fst (getAll freshPlatform ''transactions'' h) = Inr []) \<and>
   (\<forall>h. fst (getAll freshPlatform ''waiters'' h) = Inr []) \<and>
   (\<forall>h. fst (getAll freshPlatform ''config'' h) = Inr [[(''businessName'', JStr ''Lazos de Amor'')]]) \<and>
   (\<forall>h. isl (fst (getAll freshPlatform ''cash_closures'' h))) \<and>
   (\<exists>s' tr'. loadInitialData freshPlatform (initialAppState True) [] = (None, s', tr') \<and>
      cashClosures s' = [] \<and>
      menuItems s' = [] \<and> orders s' = [] \<and> transactions s' = [] \<and> waiters s' = []) \<and>
   fst (getAll downPlatform ''menu_items'' []) = Inl (TypeError ''Failed to fetch'') \<and>
   loadInitialData downPlatform (initialAppState True) [] =
     (Some (TypeError ''Failed to fetch''), initialAppState True, [Fetch (getRequest ''menu_items'')])"
  using loadInitialData_cash_closures_optional
    [of freshPlatform "[]" "[]" "[]" "[]" "[[(''businessName'', JStr ''Lazos de Amor'')]]"
        "initialAppState True" "[]" downPlatform "[]" "TypeError ''Failed to fetch''" "initialAppState True"]
  by (simp add: fresh_serves fresh_config fresh_cash down_menu)

text \<open>
  C8. \<^verbatim>\<open>loadInitialData\<close> requests the table \<^verbatim>\<open>config\<close> and stores its first record in
  \<^verbatim>\<open>AppState.config\<close>, or the empty object when the table is empty.
\<close>

theorem loadInitialData_config:
  "(\<forall>h. fst (getAll p ''menu_items'' h) = Inr m) \<and>
   (\<forall>h. fst (getAll p ''orders'' h) = Inr os) \<and>
   (\<forall>h. fst (getAll p ''transactions'' h) = Inr ts) \<and>
   (\<forall>h. fst (getAll p ''waiters'' h) = Inr ws) \<and>
   (\<forall>h. fst (getAll p ''config'' h) = Inr c) \<longrightarrow>
   (\<exists>s' tr'. loadInitialData p s tr = (None, s', tr') \<and>
      Fetch (getRequest ''config'') \<in> set tr' \<and>
      config s' = (case c of [] \<Rightarrow> [] | x # xs \<Rightarrow> x))"
proof
  assume a: "(\<forall>h. fst (getAll p ''menu_items'' h) = Inr m) \<and>
   (\<forall>h. fst (getAll p ''orders'' h) = Inr os) \<and>
   (\<forall>h. fst (getAll p ''transactions'' h) = Inr ts) \<and>
   (\<forall>h. fst (getAll p ''waiters'' h) = Inr ws) \<and>
   (\<forall>h. fst (getAll p ''config'' h) = Inr c)"
  then have eq: "loadInitialData p s tr =
     (None,
      s\<lparr>menuItems := m, orders := os, transactions := ts, waiters := ws,
        cashClosures := (case fst (getAll p ''cash_closures''
                            (tr @ map (\<lambda>t. Fetch (getRequest t))
                               [''menu_items'', ''orders'', ''transactions'', ''waiters''])) of
                           Inl e \<Rightarrow> [] | Inr cs \<Rightarrow> cs),
        config := (if length c > 0 then c ! 0 else [])\<rparr>,
      tr @ map (\<lambda>t. Fetch (getRequest t))
             [''menu_items'', ''orders'', ''transactions'', ''waiters'', ''cash_closures'', ''config''])"
    by (intro loadInitialData_served) simp_all
  show "\<exists>s' tr'. loadInitialData p s tr = (None, s', tr') \<and>
      Fetch (getRequest ''config'') \<in> set tr' \<and>
      config s' = (case c of [] \<Rightarrow> [] | x # xs \<Rightarrow> x)"
    by (cases c) (simp_all add: eq)
qed

theorem loadInitialData_config_witness:
  "(\<forall>h. fst (getAll freshPlatform ''menu_items'' h) = Inr []) \<and>
   (\<forall>h. fst (getAll freshPlatform ''orders'' h) = Inr []) \<and>
   (\<forall>h. fst (getAll freshPlatform ''transactions'' h) = Inr []) \<and>
   (\<forall>h. fst (getAll freshPlatform ''waiters'' h) = Inr []) \<and>
   (\<forall>h. fst (getAll freshPlatform ''config'' h) = Inr [[(''businessName'', JStr ''Lazos de Amor'')]]) \<and>
   (\<exists>s' tr'. loadInitialData freshPlatform (initialAppState True) [] = (None, s', tr') \<and>
      Fetch (getRequest ''config'') \<in> set tr' \<and>
      config s' = [(''businessName'', JStr ''Lazos de Amor'')])"
  using loadInitialData_config
    [of freshPlatform "[]" "[]" "[]" "[]" "[[(''businessName'', JStr ''Lazos de Amor'')]]"
        "initialAppState True" "[]"]
  by (simp add: fresh_serves fresh_config)

section \<open>The migration of a record\<close>

lemma getField_setField [simp]:
  "getField (setField item k v) k' = (if k' = k then v else getField item k')"
  by (simp add: getField_def setField_def update_conv')

lemma getField_deleteField [simp]:
  "getField (deleteField item k) k' = (if k' = k then JUndefined else getField item k')"
  by (simp add: getField_def deleteField_def delete_conv')

lemma map_of_deleteField: "map_of (deleteField item k) k = None"
  by (simp add: deleteField_def delete_conv')

lemma map_of_setField_other: "k' \<noteq> k \<Longrightarrow> map_of (setField item k v) k' = map_of item k'"
  by (simp add: setField_def update_conv')

lemma includes_js_sublist: "includes_js s t \<longleftrightarrow> sublist t s"
  by (induction s) (auto simp: sublist_Cons_right)

lemma not_trapillo:
  "\<not> includes_js (toLowerCase ''Cuero'') ''trapillo''"
  "\<not> includes_js (toLowerCase ''Tejidos Crochet'') ''trapillo''"
  "\<not> includes_js (toLowerCase []) ''trapillo''"
  by code_simp+

text \<open>The steps one by one.\<close>

lemma addCost_flag: "addCost (item, n) = (fst (addCost (item, False)), n \<or> snd (addCost (item, False)))"
  by (simp add: addCost_def)

lemma imgToImages_flag:
  "imgToImages (item, n) = (fst (imgToImages (item, False)), n \<or> snd (imgToImages (item, False)))"
  by (simp add: imgToImages_def)

lemma ensureImages_flag:
  "ensureImages (item, n) = (fst (ensureImages (item, False)), n \<or> snd (ensureImages (item, False)))"
  by (simp add: ensureImages_def)

lemma renameCuero_flag:
  "renameCuero (item, n) = (fst (renameCuero (item, False)), n \<or> snd (renameCuero (item, False)))"
  by (simp add: renameCuero_def)

lemma renameTrapillo_flag:
  "renameTrapillo (item, n) =
     (fst (renameTrapillo (item, False)), fst (snd (renameTrapillo (item, False))),
      n \<or> snd (snd (renameTrapillo (item, False))))"
  by (simp add: renameTrapillo_def split: jsval.splits)

lemma migrateItem_flag:
  "migrateItem item n = (fst (migrateItem item False), migrated item, n \<or> changed item)"
proof -
  obtain a na where a: "addCost (item, False) = (a, na)" by fastforce
  obtain b nb where b: "imgToImages (a, False) = (b, nb)" by fastforce
  obtain c nc where c: "ensureImages (b, False) = (c, nc)" by fastforce
  obtain d nd where d: "renameCuero (c, False) = (d, nd)" by fastforce
  obtain r e ne where e: "renameTrapillo (d, False) = (r, e, ne)" by (metis prod_cases3)
  have "migrateItem item m = (r, e, m \<or> na \<or> nb \<or> nc \<or> nd \<or> ne)" for m
    unfolding migrateItem_def
    apply (subst addCost_flag, simp only: a fst_conv snd_conv)
    apply (subst imgToImages_flag, simp only: b fst_conv snd_conv)
    apply (subst ensureImages_flag, simp only: c fst_conv snd_conv)
    apply (subst renameCuero_flag, simp only: d fst_conv snd_conv)
    apply (subst renameTrapillo_flag, simp only: e fst_conv snd_conv)
    apply auto
    done
  then show ?thesis
    by (auto simp: migrated_def changed_def)
qed


lemmas callback_defs =
  migrateItem_def addCost_def imgToImages_def ensureImages_def renameCuero_def renameTrapillo_def

lemma migrated_cost:
  "getField (migrated item) ''cost'' =
     (if getField item ''cost'' = JUndefined then JNum 0 else getField item ''cost'')"
  by (simp add: migrated_def callback_defs split: jsval.splits)

lemma migrated_images:
  "getField (migrated item) ''images'' =
     (if truthy (getField item ''img'') \<and> \<not> truthy (getField item ''images'')
      then JArr [getField item ''img'']
      else if isArray (getField item ''images'') then getField item ''images'' else JArr [])"
  by (cases "getField item ''images''")
     (simp_all add: migrated_def callback_defs split: jsval.splits)

lemma migrated_category:
  "getField (migrated item) ''category'' =
     (if getField item ''category'' = JStr ''Cuero Artesanal'' then JStr ''Cuero''
      else case getField item ''category'' of
             JStr c \<Rightarrow> if includes_js (toLowerCase c) ''trapillo'' then JStr ''Tejidos Crochet''
                        else JStr c
           | v \<Rightarrow> v)"
  using not_trapillo
  by (simp add: migrated_def callback_defs split: jsval.splits)

lemma migrated_img_removed:
  "truthy (getField item ''img'') \<Longrightarrow> \<not> truthy (getField item ''images'') \<Longrightarrow>
   map_of (migrated item) ''img'' = None"
  by (simp add: migrated_def callback_defs map_of_setField_other map_of_deleteField split: jsval.splits)

lemma migrateItem_completes: "fst (migrateItem item False) = None \<longleftrightarrow> categoryOk item"
  using not_trapillo
  by (simp add: categoryOk_def callback_defs split: jsval.splits)

lemma upToDate_fixed: "upToDate item \<Longrightarrow> migrateItem item n = (None, item, n)"
  by (cases "getField item ''images''")
     (simp_all add: upToDate_def callback_defs split: jsval.splits)

lemma upToDate_migrated: "categoryOk item \<Longrightarrow> upToDate (migrated item)"
  using not_trapillo
  unfolding upToDate_def migrated_cost migrated_images migrated_category
  by (auto simp: categoryOk_def split: jsval.splits)

section \<open>The migration loop and the state it leaves\<close>

lemma forEachMigrate_Cons_None:
  "migrateItem item n = (None, item', n') \<Longrightarrow>
   forEachMigrate (item # rest) n =
     (fst (forEachMigrate rest n'), item' # fst (snd (forEachMigrate rest n')),
      snd (snd (forEachMigrate rest n')))"
  by (simp split: prod.splits)

lemma forEachMigrate_Cons_Some:
  "migrateItem item n = (Some e, item', n') \<Longrightarrow>
   forEachMigrate (item # rest) n = (Some e, item' # rest, n')"
  by simp

lemma forEachMigrate_Cons:
  "forEachMigrate (item # rest) n =
     (case fst (migrateItem item False) of
        Some e \<Rightarrow> (Some e, migrated item # rest, n \<or> changed item)
      | None \<Rightarrow>
          (fst (forEachMigrate rest (n \<or> changed item)),
           migrated item # fst (snd (forEachMigrate rest (n \<or> changed item))),
           snd (snd (forEachMigrate rest (n \<or> changed item)))))"
proof (cases "fst (migrateItem item False)")
  case None
  then have "migrateItem item n = (None, migrated item, n \<or> changed item)"
    by (subst migrateItem_flag) simp
  then show ?thesis
    using None by (simp only: forEachMigrate_Cons_None option.case)
next
  case (Some e)
  then have "migrateItem item n = (Some e, migrated item, n \<or> changed item)"
    by (subst migrateItem_flag) simp
  then show ?thesis
    using Some by (simp only: forEachMigrate_Cons_Some option.case)
qed

lemma forEachMigrate_length: "length (fst (snd (forEachMigrate items n))) = length items"
proof (induction items arbitrary: n)
  case Nil
  show ?case by simp
next
  case (Cons item rest)
  show ?case
    by (cases "fst (migrateItem item False)") (simp_all only: forEachMigrate_Cons option.case fst_conv snd_conv length_Cons Cons.IH)
qed

lemma forEachMigrate_reached:
  "reached items i \<Longrightarrow> fst (snd (forEachMigrate items n)) ! i = migrated (items ! i)"
proof (induction items arbitrary: n i)
  case Nil
  then show ?case by (simp add: reached_def)
next
  case (Cons item rest)
  show ?case
  proof (cases i)
    case 0
    then show ?thesis
      by (cases "fst (migrateItem item False)") (simp_all only: forEachMigrate_Cons option.case fst_conv snd_conv nth_Cons_0)
  next
    case (Suc k)
    with Cons.prems have ok: "categoryOk item" and rest: "reached rest k"
      by (simp_all add: reached_def)
    from ok have "fst (migrateItem item False) = None"
      by (simp add: migrateItem_completes)
    then show ?thesis
      using Cons.IH [OF rest] Suc
      by (simp only: forEachMigrate_Cons option.case fst_conv snd_conv nth_Cons_Suc)
  qed
qed

lemma forEachMigrate_completes:
  "fst (forEachMigrate items n) = None \<longleftrightarrow> list_all categoryOk items"
proof (induction items arbitrary: n)
  case Nil
  then show ?case by simp
next
  case (Cons item rest)
  show ?case
  proof (cases "fst (migrateItem item False)")
    case None
    then have "categoryOk item"
      by (simp add: migrateItem_completes)
    with None show ?thesis
      using Cons.IH [of "n \<or> changed item"]
      by (simp add: forEachMigrate_Cons del: forEachMigrate.simps)
  next
    case (Some e)
    then have "\<not> categoryOk item"
      using migrateItem_completes [of item] by simp
    with Some show ?thesis
      by (simp add: forEachMigrate_Cons del: forEachMigrate.simps)
  qed
qed

lemma forEachMigrate_upToDate:
  "list_all upToDate items \<Longrightarrow> forEachMigrate items n = (None, items, n)"
  by (induction items arbitrary: n) (simp_all add: upToDate_fixed)

lemma reached_all: "list_all categoryOk items \<Longrightarrow> i < length items \<Longrightarrow> reached items i"
  by (simp add: reached_def list_all_iff) (meson in_set_takeD)

lemma forEachMigrate_map:
  assumes "list_all categoryOk items"
  shows "fst (snd (forEachMigrate items n)) = map migrated items"
proof (rule nth_equalityI)
  show "length (fst (snd (forEachMigrate items n))) = length (map migrated items)"
    by (simp add: forEachMigrate_length)
next
  fix i
  assume "i < length (fst (snd (forEachMigrate items n)))"
  then have "i < length items"
    by (simp add: forEachMigrate_length)
  then show "fst (snd (forEachMigrate items n)) ! i = map migrated items ! i"
    using assms by (simp add: forEachMigrate_reached reached_all)
qed

text \<open>What a call leaves in \<open>AppState.menuItems\<close> and \<open>AppState.waiters\<close>.\<close>

lemma initWaiters_menuItems:
  "initWaiters p s tr n = (r, s', tr', n') \<Longrightarrow> menuItems s' = menuItems s"
  by (auto simp: initWaiters_def Let_def split: if_splits prod.splits sum.splits)

lemma initMenuItems_migrates:
  "menuItems s \<noteq> [] \<Longrightarrow> initMenuItems p s tr n = (r, s', tr', n') \<Longrightarrow>
   menuItems s' = fst (snd (forEachMigrate (menuItems s) False))"
  by (auto simp: initMenuItems_def split: if_splits prod.splits sum.splits option.splits)

lemma initializeDefaultData_migrates:
  assumes "menuItems s \<noteq> []" and "initializeDefaultData p s tr n = (r, s', tr', n')"
  shows "menuItems s' = fst (snd (forEachMigrate (menuItems s) False))"
proof -
  obtain r1 s1 tr1 n1 where m: "initMenuItems p s tr n = (r1, s1, tr1, n1)"
    by (metis prod_cases4)
  have s1: "menuItems s1 = fst (snd (forEachMigrate (menuItems s) False))"
    using assms(1) m by (rule initMenuItems_migrates)
  show ?thesis
  proof (cases r1)
    case None
    with assms(2) m have "initWaiters p s1 tr1 n1 = (r, s', tr', n')"
      by (simp add: initializeDefaultData_def)
    then show ?thesis
      using s1 by (simp add: initWaiters_menuItems)
  next
    case (Some e)
    with assms(2) m have "s' = s1"
      by (simp add: initializeDefaultData_def)
    then show ?thesis
      using s1 by simp
  qed
qed

section \<open>Properties of the migration\<close>

lemma not_trapillo_cuero_artesanal: "\<not> sublist ''trapillo'' (toLowerCase ''Cuero Artesanal'')"
proof -
  have "\<not> includes_js (toLowerCase ''Cuero Artesanal'') ''trapillo''"
    by code_simp
  then show ?thesis
    by (simp add: includes_js_sublist)
qed

lemma initializeDefaultData_reached:
  assumes "initializeDefaultData p s tr n = (r, s', tr', n')" and "reached (menuItems s) i"
  shows "menuItems s' ! i = migrated (menuItems s ! i)"
proof -
  from assms(2) have "menuItems s \<noteq> []"
    by (auto simp: reached_def)
  then have "menuItems s' = fst (snd (forEachMigrate (menuItems s) False))"
    using assms(1) by (rule initializeDefaultData_migrates)
  then show ?thesis
    using assms(2) by (simp add: forEachMigrate_reached)
qed

text \<open>Facts of the legacy shop.\<close>

lemma legacy_reached:
  "reached (menuItems legacyState) 0" "reached (menuItems legacyState) 1"
  "reached (menuItems legacyState) 2"
  by code_simp+

lemma legacy_categories:
  "getField (menuItems legacyState ! 0) ''category'' = JStr ''Cuero Artesanal''"
  "getField (menuItems legacyState ! 1) ''category'' = JStr ''Cestas de TRAPILLO''"
  "getField (menuItems legacyState ! 2) ''category'' = JStr ''Macrame''"
  by code_simp+

lemma legacy_trapillo:
  "sublist ''trapillo'' (toLowerCase ''Cestas de TRAPILLO'')"
  "\<not> sublist ''trapillo'' (toLowerCase ''Macrame'')"
  unfolding includes_js_sublist [symmetric] by code_simp+

lemma legacy_first_img:
  "truthy (getField (menuItems legacyState ! 0) ''img'')"
  "\<not> truthy (getField (menuItems legacyState ! 0) ''images'')"
  "getField (menuItems legacyState ! 0) ''img'' = JStr ''monedero.png''"
  by code_simp+

lemma legacy_second_images:
  "\<not> isArray (getField (menuItems legacyState ! 1) ''images'')"
  "\<not> truthy (getField (menuItems legacyState ! 1) ''img'')"
  "menuItems legacyState \<noteq> []"
  "fst (forEachMigrate (menuItems legacyState) False) = None"
  by code_simp+

text \<open>
  C5 (amended). Renaming of categories. For every record the loop gets to, that is when
  no record before it has a truthy category that is not a string, the call leaves the
  category \<^verbatim>\<open>Cuero\<close> where it was \<^verbatim>\<open>Cuero Artesanal\<close>, leaves \<^verbatim>\<open>Tejidos Crochet\<close> where
  it contained \<^verbatim>\<open>trapillo\<close> in any mix of capitals, and leaves every other category as it
  was. The state is the one after the call, whether the save that follows succeeds or
  not.
\<close>

theorem category_rename_migration:
  assumes "initializeDefaultData p s tr n = (r, s', tr', n')"
    and "reached (menuItems s) i"
  shows "(getField (menuItems s ! i) ''category'' = JStr ''Cuero Artesanal'' \<longrightarrow>
            getField (menuItems s' ! i) ''category'' = JStr ''Cuero'') \<and>
         (\<forall>c. getField (menuItems s ! i) ''category'' = JStr c \<and>
               sublist ''trapillo'' (toLowerCase c) \<longrightarrow>
            getField (menuItems s' ! i) ''category'' = JStr ''Tejidos Crochet'') \<and>
         (getField (menuItems s ! i) ''category'' \<noteq> JStr ''Cuero Artesanal'' \<and>
          (\<forall>c. getField (menuItems s ! i) ''category'' = JStr c \<longrightarrow>
               \<not> sublist ''trapillo'' (toLowerCase c)) \<longrightarrow>
            getField (menuItems s' ! i) ''category'' = getField (menuItems s ! i) ''category'')"
proof -
  have m: "menuItems s' ! i = migrated (menuItems s ! i)"
    using assms by (rule initializeDefaultData_reached)
  show ?thesis
    unfolding m migrated_category
    using not_trapillo_cuero_artesanal
    by (auto simp: includes_js_sublist split: jsval.splits)
qed

theorem category_rename_migration_witness:
  "reached (menuItems legacyState) 0 \<and> reached (menuItems legacyState) 1 \<and>
   reached (menuItems legacyState) 2 \<and>
   getField (menuItems (stateOf (initializeDefaultData freshPlatform legacyState [] 0)) ! 0)
     ''category'' = JStr ''Cuero'' \<and>
   getField (menuItems (stateOf (initializeDefaultData freshPlatform legacyState [] 0)) ! 1)
     ''category'' = JStr ''Tejidos Crochet'' \<and>
   getField (menuItems (stateOf (initializeDefaultData freshPlatform legacyState [] 0)) ! 2)
     ''category'' = JStr ''Macrame''"
proof -
  obtain r s' tr' n' where run: "initializeDefaultData freshPlatform legacyState [] 0 = (r, s', tr', n')"
    by (metis prod_cases4)
  have "getField (menuItems s' ! 0) ''category'' = JStr ''Cuero''"
    using category_rename_migration [OF run legacy_reached(1)] legacy_categories(1) by simp
  moreover have "getField (menuItems s' ! 1) ''category'' = JStr ''Tejidos Crochet''"
    using category_rename_migration [OF run legacy_reached(2)] legacy_categories(2) legacy_trapillo(1)
    by simp
  moreover have "getField (menuItems s' ! 2) ''category'' = JStr ''Macrame''"
    using category_rename_migration [OF run legacy_reached(3)] legacy_categories(3) legacy_trapillo(2)
    by simp
  ultimately show ?thesis
    using legacy_reached by (simp add: run stateOf_def)
qed

text \<open>
  Without the condition the statement fails. The category of the first record is the
  number 7: the callback raises at \<^verbatim>\<open>toLowerCase\<close>, the call ends with that TypeError
  and without a request, and the second record keeps \<^verbatim>\<open>Cuero Artesanal\<close>.
\<close>

theorem category_rename_counterexample:
  "initializeDefaultData freshPlatform
     ((initialAppState True)
        \<lparr>menuItems := [[(''name'', JStr ''Llavero''), (''category'', JNum 7)],
                       [(''name'', JStr ''Monedero''), (''category'', JStr ''Cuero Artesanal'')]]\<rparr>)
     [] 0 =
   (Some (TypeError ''item.category.toLowerCase is not a function''),
    (initialAppState True)
      \<lparr>menuItems := [[(''name'', JStr ''Llavero''), (''category'', JNum 7), (''cost'', JNum 0),
                      (''images'', JArr [])],
                     [(''name'', JStr ''Monedero''), (''category'', JStr ''Cuero Artesanal'')]]\<rparr>,
    [], 0)"
  by code_simp

text \<open>
  C6 (amended). Legacy image. For every record the loop gets to whose \<^verbatim>\<open>img\<close> is truthy
  and whose \<^verbatim>\<open>images\<close> is missing or falsy, the call leaves \<^verbatim>\<open>images\<close> as the one-element
  array of the former \<^verbatim>\<open>img\<close> and the record without a member \<^verbatim>\<open>img\<close>.
\<close>

theorem legacy_image_migration:
  assumes "initializeDefaultData p s tr n = (r, s', tr', n')"
    and "reached (menuItems s) i"
    and "truthy (getField (menuItems s ! i) ''img'')"
    and "\<not> truthy (getField (menuItems s ! i) ''images'')"
  shows "getField (menuItems s' ! i) ''images'' = JArr [getField (menuItems s ! i) ''img''] \<and>
         map_of (menuItems s' ! i) ''img'' = None"
proof -
  have m: "menuItems s' ! i = migrated (menuItems s ! i)"
    using assms(1,2) by (rule initializeDefaultData_reached)
  show ?thesis
    unfolding m using assms(3,4) by (simp add: migrated_images migrated_img_removed)
qed

theorem legacy_image_migration_witness:
  "reached (menuItems legacyState) 0 \<and>
   truthy (getField (menuItems legacyState ! 0) ''img'') \<and>
   \<not> truthy (getField (menuItems legacyState ! 0) ''images'') \<and>
   getField (menuItems (stateOf (initializeDefaultData freshPlatform legacyState [] 0)) ! 0)
     ''images'' = JArr [JStr ''monedero.png''] \<and>
   map_of (menuItems (stateOf (initializeDefaultData freshPlatform legacyState [] 0)) ! 0)
     ''img'' = None"
proof -
  obtain r s' tr' n' where run: "initializeDefaultData freshPlatform legacyState [] 0 = (r, s', tr', n')"
    by (metis prod_cases4)
  show ?thesis
    using legacy_image_migration [OF run legacy_reached(1) legacy_first_img(1,2)]
      legacy_reached(1) legacy_first_img
    by (simp add: run stateOf_def)
qed

text \<open>
  A record can have an \<^verbatim>\<open>img\<close> and no \<^verbatim>\<open>images\<close> and not be rewritten so. The first
  record has the empty string as its \<^verbatim>\<open>img\<close>: the test \<^verbatim>\<open>item.img && !item.images\<close> is
  false, the record keeps its \<^verbatim>\<open>img\<close> and gets an empty \<^verbatim>\<open>images\<close>. The third record
  comes after one at which the callback raises and is left as it was.
\<close>

theorem legacy_image_counterexample:
  "initializeDefaultData freshPlatform
     ((initialAppState True)
        \<lparr>menuItems := [[(''name'', JStr ''Tapete''), (''img'', JStr [])],
                       [(''name'', JStr ''Llavero''), (''category'', JNum 7)],
                       [(''name'', JStr ''Monedero''), (''img'', JStr ''monedero.png'')]]\<rparr>)
     [] 0 =
   (Some (TypeError ''item.category.toLowerCase is not a function''),
    (initialAppState True)
      \<lparr>menuItems := [[(''name'', JStr ''Tapete''), (''img'', JStr []), (''cost'', JNum 0),
                      (''images'', JArr [])],
                     [(''name'', JStr ''Llavero''), (''category'', JNum 7), (''cost'', JNum 0),
                      (''images'', JArr [])],
                     [(''name'', JStr ''Monedero''), (''img'', JStr ''monedero.png'')]]\<rparr>,
    [], 0)"
  by code_simp

text \<open>
  C7 (amended). For every record the loop gets to whose \<^verbatim>\<open>images\<close> is missing or is no
  array, the call leaves \<^verbatim>\<open>images\<close> as the empty array, whatever value was there, except
  when \<^verbatim>\<open>images\<close> is falsy and \<^verbatim>\<open>img\<close> is truthy: then it is the one-element array of
  that \<^verbatim>\<open>img\<close>. When the loop over a non-empty menu ends without raising, every record
  of \<^verbatim>\<open>AppState.menuItems\<close> has an array as \<^verbatim>\<open>images\<close> and a \<^verbatim>\<open>cost\<close> that is not
  \<^verbatim>\<open>undefined\<close>.
\<close>

theorem images_normalised:
  assumes "initializeDefaultData p s tr n = (r, s', tr', n')"
  shows "(\<forall>i. reached (menuItems s) i \<and> \<not> isArray (getField (menuItems s ! i) ''images'') \<longrightarrow>
            getField (menuItems s' ! i) ''images'' =
              (if truthy (getField (menuItems s ! i) ''img'') \<and>
                  \<not> truthy (getField (menuItems s ! i) ''images'')
               then JArr [getField (menuItems s ! i) ''img''] else JArr [])) \<and>
         (menuItems s \<noteq> [] \<and> fst (forEachMigrate (menuItems s) False) = None \<longrightarrow>
            (\<forall>item \<in> set (menuItems s').
               isArray (getField item ''images'') \<and> getField item ''cost'' \<noteq> JUndefined))"
proof (intro conjI allI impI)
  fix i
  assume a: "reached (menuItems s) i \<and> \<not> isArray (getField (menuItems s ! i) ''images'')"
  then have "reached (menuItems s) i"
    by simp
  with assms have m: "menuItems s' ! i = migrated (menuItems s ! i)"
    by (rule initializeDefaultData_reached)
  show "getField (menuItems s' ! i) ''images'' =
          (if truthy (getField (menuItems s ! i) ''img'') \<and>
              \<not> truthy (getField (menuItems s ! i) ''images'')
           then JArr [getField (menuItems s ! i) ''img''] else JArr [])"
    unfolding m using a by (simp add: migrated_images)
next
  assume a: "menuItems s \<noteq> [] \<and> fst (forEachMigrate (menuItems s) False) = None"
  then have ok: "list_all categoryOk (menuItems s)"
    by (simp add: forEachMigrate_completes)
  from a have "menuItems s \<noteq> []"
    by simp
  then have "menuItems s' = fst (snd (forEachMigrate (menuItems s) False))"
    using assms by (rule initializeDefaultData_migrates)
  then have m: "menuItems s' = map migrated (menuItems s)"
    using ok by (simp add: forEachMigrate_map)
  show "\<forall>item \<in> set (menuItems s').
          isArray (getField item ''images'') \<and> getField item ''cost'' \<noteq> JUndefined"
    unfolding m by (auto simp: migrated_images migrated_cost)
qed

theorem images_normalised_witness:
  "reached (menuItems legacyState) 1 \<and>
   \<not> isArray (getField (menuItems legacyState ! 1) ''images'') \<and>
   getField (menuItems (stateOf (initializeDefaultData freshPlatform legacyState [] 0)) ! 1)
     ''images'' = JArr [] \<and>
   menuItems legacyState \<noteq> [] \<and>
   fst (forEachMigrate (menuItems legacyState) False) = None \<and>
   list_all (\<lambda>item. isArray (getField item ''images'') \<and> getField item ''cost'' \<noteq> JUndefined)
     (menuItems (stateOf (initializeDefaultData freshPlatform legacyState [] 0)))"
proof -
  obtain r s' tr' n' where run: "initializeDefaultData freshPlatform legacyState [] 0 = (r, s', tr', n')"
    by (metis prod_cases4)
  note inst = images_normalised [OF run]
  from inst have "getField (menuItems s' ! 1) ''images'' = JArr []"
    using legacy_reached(2) legacy_second_images(1,2) by simp
  moreover from inst have "\<forall>item \<in> set (menuItems s').
      isArray (getField item ''images'') \<and> getField item ''cost'' \<noteq> JUndefined"
    using legacy_second_images(3,4) by blast
  ultimately show ?thesis
    using legacy_reached(2) legacy_second_images
    by (simp add: run stateOf_def list_all_iff)
qed

text \<open>
  The first record has no \<^verbatim>\<open>images\<close> and ends with the array of its \<^verbatim>\<open>img\<close>, not with
  the empty array. The third record has a string as \<^verbatim>\<open>images\<close> and keeps it, since the
  callback raises at the second record.
\<close>

theorem images_normalised_counterexample:
  "initializeDefaultData freshPlatform
     ((initialAppState True)
        \<lparr>menuItems := [[(''name'', JStr ''Monedero''), (''img'', JStr ''monedero.png'')],
                       [(''name'', JStr ''Llavero''), (''category'', JNum 7)],
                       [(''name'', JStr ''Cesta''), (''images'', JStr ''cesta.png'')]]\<rparr>)
     [] 0 =
   (Some (TypeError ''item.category.toLowerCase is not a function''),
    (initialAppState True)
      \<lparr>menuItems := [[(''name'', JStr ''Monedero''), (''cost'', JNum 0),
                      (''images'', JArr [JStr ''monedero.png''])],
                     [(''name'', JStr ''Llavero''), (''category'', JNum 7), (''cost'', JNum 0),
                      (''images'', JArr [])],
                     [(''name'', JStr ''Cesta''), (''images'', JStr ''cesta.png'')]]\<rparr>,
    [], 0)"
  by code_simp

section \<open>Two calls in succession\<close>

lemma initWaiters_None:
  "initWaiters p s tr n = (None, s', tr', n') \<Longrightarrow> waiters s' \<noteq> []"
  by (auto simp: initWaiters_def Let_def seedWaiters_def split: if_splits prod.splits sum.splits)

lemma initMenuItems_None:
  "menuItems s \<noteq> [] \<Longrightarrow> initMenuItems p s tr n = (None, s', tr', n') \<Longrightarrow>
   fst (forEachMigrate (menuItems s) False) = None \<and> waiters s' = waiters s"
  by (auto simp: initMenuItems_def split: if_splits prod.splits sum.splits option.splits)

lemma initializeDefaultData_upToDate:
  assumes "menuItems s \<noteq> []" and "list_all upToDate (menuItems s)" and "waiters s \<noteq> []"
  shows "initializeDefaultData p s tr n = (None, s, tr, n)"
proof -
  have "initMenuItems p s tr n = (None, s, tr, n)"
    using assms(1,2) by (simp add: initMenuItems_def forEachMigrate_upToDate)
  moreover have "initWaiters p s tr n = (None, s, tr, n)"
    using assms(3) by (simp add: initWaiters_def)
  ultimately show ?thesis
    by (simp add: initializeDefaultData_def)
qed

lemma initializeDefaultData_saves:
  assumes "initializeDefaultData p s tr n = (r, s', tr', n')"
  shows "\<exists>mid. (mid = tr \<or> (\<exists>items. mid = snd (save p ''menu_items'' items 2 tr))) \<and>
               (tr' = mid \<or> (\<exists>ws. tr' = snd (save p ''waiters'' ws 2 mid)))"
proof -
  obtain r1 s1 tr1 n1 where m: "initMenuItems p s tr n = (r1, s1, tr1, n1)"
    by (metis prod_cases4)
  have mid: "tr1 = tr \<or> (\<exists>items. tr1 = snd (save p ''menu_items'' items 2 tr))"
    using m
    by (auto simp: initMenuItems_def Let_def split: if_splits prod.splits sum.splits option.splits;
        metis snd_conv)
  show ?thesis
  proof (cases r1)
    case None
    with assms m have "initWaiters p s1 tr1 n1 = (r, s', tr', n')"
      by (simp add: initializeDefaultData_def)
    then have "tr' = tr1 \<or> (\<exists>ws. tr' = snd (save p ''waiters'' ws 2 tr1))"
      by (auto simp: initWaiters_def Let_def split: if_splits prod.splits sum.splits;
          metis snd_conv)
    with mid show ?thesis
      by blast
  next
    case (Some e)
    with assms m have "tr' = tr1"
      by (simp add: initializeDefaultData_def)
    with mid show ?thesis
      by blast
  qed
qed

text \<open>
  C1 (amended). A call of \<^verbatim>\<open>initializeDefaultData\<close> runs \<^verbatim>\<open>API.save\<close> at most once for
  \<^verbatim>\<open>menu_items\<close> and then at most once for \<^verbatim>\<open>waiters\<close>: the events it adds are those of
  these runs, in this order. When a call on a non-empty menu returns normally, the call
  that follows it in succession returns normally too, adds no event and leaves
  \<^verbatim>\<open>AppState\<close> as it is.
\<close>

theorem second_call_is_no_op:
  assumes "initializeDefaultData p s tr n = (r, s', tr', n')"
  shows "(\<exists>mid. (mid = tr \<or> (\<exists>items. mid = snd (save p ''menu_items'' items 2 tr))) \<and>
                (tr' = mid \<or> (\<exists>ws. tr' = snd (save p ''waiters'' ws 2 mid)))) \<and>
         (menuItems s \<noteq> [] \<and> r = None \<longrightarrow>
            initializeDefaultData p s' tr' n' = (None, s', tr', n'))"
proof (intro conjI impI)
  show "\<exists>mid. (mid = tr \<or> (\<exists>items. mid = snd (save p ''menu_items'' items 2 tr))) \<and>
              (tr' = mid \<or> (\<exists>ws. tr' = snd (save p ''waiters'' ws 2 mid)))"
    using assms by (rule initializeDefaultData_saves)
next
  assume a: "menuItems s \<noteq> [] \<and> r = None"
  obtain r1 s1 tr1 n1 where m: "initMenuItems p s tr n = (r1, s1, tr1, n1)"
    by (metis prod_cases4)
  have r1: "r1 = None"
    using assms m a by (cases r1) (simp_all add: initializeDefaultData_def)
  with assms m a have w: "initWaiters p s1 tr1 n1 = (None, s', tr', n')"
    by (simp add: initializeDefaultData_def)
  from a m r1 have loop: "fst (forEachMigrate (menuItems s) False) = None"
    using initMenuItems_None by blast
  then have ok: "list_all categoryOk (menuItems s)"
    by (simp add: forEachMigrate_completes)
  have "menuItems s' = fst (snd (forEachMigrate (menuItems s) False))"
    using a assms by (intro initializeDefaultData_migrates) simp_all
  then have menu: "menuItems s' = map migrated (menuItems s)"
    using ok by (simp add: forEachMigrate_map)
  have "list_all upToDate (menuItems s')"
    unfolding menu using ok by (induction "menuItems s") (simp_all add: list_all_iff upToDate_migrated)
  moreover have "menuItems s' \<noteq> []"
    using a menu by simp
  moreover have "waiters s' \<noteq> []"
    using w by (rule initWaiters_None)
  ultimately show "initializeDefaultData p s' tr' n' = (None, s', tr', n')"
    by (intro initializeDefaultData_upToDate)
qed

lemma legacyStart_returns: "fst legacyStart = None"
  by code_simp

lemma legacy_nonempty: "menuItems legacyState \<noteq> []"
  by code_simp

theorem second_call_is_no_op_witness:
  "menuItems legacyState \<noteq> [] \<and> fst legacyStart = None \<and>
   nextCall freshPlatform legacyStart = legacyStart \<and>
   eventsOf (nextCall freshPlatform legacyStart) = eventsOf legacyStart"
proof -
  obtain r s' tr' n' where run: "initializeDefaultData freshPlatform legacyState [] 0 = (r, s', tr', n')"
    by (metis prod_cases4)
  then have r: "r = None"
    using legacyStart_returns by (simp add: legacyStart_def)
  have "initializeDefaultData freshPlatform s' tr' n' = (None, s', tr', n')"
    using second_call_is_no_op [OF run] legacy_nonempty r by blast
  then have "nextCall freshPlatform legacyStart = legacyStart"
    using run r by (simp add: nextCall_def legacyStart_def)
  then show ?thesis
    using legacy_nonempty legacyStart_returns by simp
qed

text \<open>
  The first start against a fresh backend. The first call seeds and saves both
  collections: two writes. The seeded products have a member \<^verbatim>\<open>image\<close> and no
  \<^verbatim>\<open>images\<close>, so the second call takes them for records to migrate, gives each an empty
  \<^verbatim>\<open>images\<close> and saves the menu once more.
\<close>

theorem second_call_writes_counterexample:
  "fst firstStart = None \<and>
   eventsOf firstStart =
     [Fetch (saveRequest ''menu_items'' (toJson (menuItems (stateOf firstStart)))),
      Fetch (saveRequest ''waiters'' (toJson (waiters (stateOf firstStart))))] \<and>
   fst (nextCall freshPlatform firstStart) = None \<and>
   eventsOf (nextCall freshPlatform firstStart) =
     eventsOf firstStart @
     [Fetch (saveRequest ''menu_items'' (toJson (menuItems (stateOf (nextCall freshPlatform firstStart)))))] \<and>
   getField (menuItems (stateOf firstStart) ! 0) ''images'' = JUndefined \<and>
   getField (menuItems (stateOf (nextCall freshPlatform firstStart)) ! 0) ''images'' = JArr []"
  by code_simp

section \<open>Date keys and the zone of the host\<close>

text \<open>
  C9. The key \<^verbatim>\<open>getDateKey\<close> returns for an instant and a time zone does not depend on
  the local time zone of the host: two hosts that differ in nothing but their local
  zone return the same key (also when an argument is left to its default).
\<close>

theorem getDateKey_ignores_local_zone:
  "getDateKey render (e\<lparr>localZone := z1\<rparr>) date timeZone =
   getDateKey render (e\<lparr>localZone := z2\<rparr>) date timeZone"
  by (cases date) (simp_all add: getDateKey_def dateTimeFormat_def)

text \<open>By contrast \<^verbatim>\<open>formatDate\<close>, which names no zone, follows the host.\<close>

lemma formatDate_follows_local_zone:
  "formatDate dayNumber \<lparr>now = 0, localZone = ''UTC''\<rparr> 90000000 = Inr ''1'' \<and>
   formatDate dayNumber \<lparr>now = 0, localZone = ''America/Bogota''\<rparr> 90000000 = Inr ''0'' \<and>
   getDateKey dayNumber \<lparr>now = 0, localZone = ''UTC''\<rparr> (Some 90000000) None = Inr ''0'' \<and>
   getDateKey dayNumber \<lparr>now = 0, localZone = ''America/Bogota''\<rparr> (Some 90000000) None = Inr ''0''"
  by code_simp

end
